theory Spec2Isabelle
  imports Complex_Main
begin

section \<open>Python values, exceptions and the library functions the code calls\<close>

text \<open>
  The decoder prints JSON; \<open>json.loads\<close> turns a line into a Python value. The meter
  identities given to the \<open>rtl\<close> class are Python values as well (\<open>None\<close>, a string
  from the command line, or a number), so one datatype serves both. Python's \<open>float\<close>
  is idealised as \<open>real\<close> in these values; the dew point is computed with the rounding of
  doubles, in its own section.
\<close>

datatype pyval =
    PNone
  | PBool bool
  | PInt int
  | PFloat real
  | PStr string
  | PList "pyval list"
  | PDict "(string \<times> pyval) list"

datatype exn =
    KeyError | IndexError | ValueError | TypeError | UnboundLocalError | OverflowError
  | RecursionError | ZeroDivisionError

text \<open>
  What a call does: it never returns (\<open>Hangs\<close>), it raises, or it returns a value.
\<close>

datatype 'a outcome = Hangs | Raises exn | Returns 'a

text \<open>
  Library code that is not part of the repository is a parameter of the model:
  \<open>json_loads\<close> is \<open>json.loads\<close> on the bytes of one line: \<open>Inr\<close> the decoded
  value, or \<open>Inl\<close> the exception it raises, which is \<open>ValueError\<close> on malformed input
  (\<open>JSONDecodeError\<close> and \<open>UnicodeDecodeError\<close> are \<open>ValueError\<close>s) and can be
  another one (\<open>RecursionError\<close> on deeply nested brackets). \<open>float_of_str\<close> is
  \<open>float\<close> on a string (\<open>None\<close> is its \<open>ValueError\<close>), and \<open>repr_of\<close> is
  \<open>str\<close> on floats, lists and dictionaries.
\<close>

record pylib =
  json_loads :: "string \<Rightarrow> exn + pyval"
  float_of_str :: "string \<Rightarrow> real option"
  repr_of :: "pyval \<Rightarrow> string"

definition digit_char :: "nat \<Rightarrow> char" where
  "digit_char d = char_of (48 + d)"

fun str_nat :: "nat \<Rightarrow> string" where
  "str_nat n = (if n < 10 then [digit_char n] else str_nat (n div 10) @ [digit_char (n mod 10)])"

definition str_int :: "int \<Rightarrow> string" where
  "str_int i = (if i < 0 then CHR ''-'' # str_nat (nat (- i)) else str_nat (nat i))"

text \<open>\<open>str(v)\<close>.\<close>

fun py_str :: "pylib \<Rightarrow> pyval \<Rightarrow> string" where
  "py_str lib PNone = ''None''"
| "py_str lib (PBool b) = (if b then ''True'' else ''False'')"
| "py_str lib (PInt i) = str_int i"
| "py_str lib (PStr s) = s"
| "py_str lib v = repr_of lib v"

text \<open>The truth value of \<open>v\<close> in \<open>if v:\<close> and \<open>v and ...\<close>.\<close>

fun py_truthy :: "pyval \<Rightarrow> bool" where
  "py_truthy PNone = False"
| "py_truthy (PBool b) = b"
| "py_truthy (PInt i) = (i \<noteq> 0)"
| "py_truthy (PFloat x) = (x \<noteq> 0)"
| "py_truthy (PStr s) = (s \<noteq> [])"
| "py_truthy (PList xs) = (xs \<noteq> [])"
| "py_truthy (PDict kvs) = (kvs \<noteq> [])"

text \<open>
  \<open>v[key]\<close> with a string key: a dictionary looks the key up and raises
  \<open>KeyError\<close> when it is absent; every other value raises \<open>TypeError\<close> (strings and
  lists take integer indices only, the rest is not subscriptable).
\<close>

fun py_getitem :: "pyval \<Rightarrow> string \<Rightarrow> exn + pyval" where
  "py_getitem (PDict kvs) key = (case map_of kvs key of None \<Rightarrow> Inl KeyError | Some v \<Rightarrow> Inr v)"
| "py_getitem v key = Inl TypeError"

fun is_substr :: "string \<Rightarrow> string \<Rightarrow> bool" where
  "is_substr xs [] = (xs = [])"
| "is_substr xs (y # ys) = (take (length xs) (y # ys) = xs \<or> is_substr xs ys)"

text \<open>
  \<open>key in v\<close> with a string key: key membership for a dictionary, substring test for
  a string, element test for a list, \<open>TypeError\<close> for values that are not iterable.
\<close>

fun py_contains :: "string \<Rightarrow> pyval \<Rightarrow> exn + bool" where
  "py_contains key (PDict kvs) = Inr (map_of kvs key \<noteq> None)"
| "py_contains key (PStr s) = Inr (is_substr key s)"
| "py_contains key (PList xs) = Inr (PStr key \<in> set xs)"
| "py_contains key v = Inl TypeError"

text \<open>\<open>d[0]\<close> on the list that the reader returns.\<close>

fun py_first :: "pyval list \<Rightarrow> exn + pyval" where
  "py_first [] = Inl IndexError"
| "py_first (x # xs) = Inr x"

text \<open>
  \<open>float(v)\<close>: \<open>TypeError\<close> for \<open>None\<close>, lists and dictionaries, \<open>ValueError\<close>
  for a string that is not a number, \<open>OverflowError\<close> for an integer beyond the range
  of a double.
\<close>

fun py_float :: "pylib \<Rightarrow> pyval \<Rightarrow> exn + real" where
  "py_float lib PNone = Inl TypeError"
| "py_float lib (PBool b) = Inr (if b then 1 else 0)"
| "py_float lib (PInt i) = (if \<bar>i\<bar> < 2 ^ 1024 - 2 ^ 970 then Inr (of_int i) else Inl OverflowError)"
| "py_float lib (PFloat x) = Inr x"
| "py_float lib (PStr s) = (case float_of_str lib s of None \<Rightarrow> Inl ValueError | Some x \<Rightarrow> Inr x)"
| "py_float lib (PList xs) = Inl TypeError"
| "py_float lib (PDict kvs) = Inl TypeError"

text \<open>Sequencing of two steps either of which may raise.\<close>

definition and_then :: "exn + 'a \<Rightarrow> ('a \<Rightarrow> exn + 'b) \<Rightarrow> exn + 'b" where
  "and_then r f = (case r of Inl e \<Rightarrow> Inl e | Inr v \<Rightarrow> f v)"

text \<open>\<open>sep.join(xs)\<close>.\<close>

fun join :: "string \<Rightarrow> string list \<Rightarrow> string" where
  "join sep [] = []"
| "join sep [x] = x"
| "join sep (x # y # ys) = x @ sep @ join sep (y # ys)"

section \<open>The decoder process\<close>

text \<open>
  \<open>subprocess.Popen(command_line, stdout=PIPE, stderr=PIPE)\<close> opens the pipe in
  binary mode, so \<open>p.stdout.readline()\<close> returns a \<open>bytes\<close> object: the next line
  while there is one, and \<open>b''\<close> once the stream has ended. The literal \<open>''\<close> of
  the source is a \<open>str\<close>. Both kinds of text are kept apart, as Python 3 does: a
  \<open>bytes\<close> object never equals a \<open>str\<close>.
\<close>

datatype pytext = PyBytes string | PyStr string

record proc =
  pending :: "string list"
  returncode :: "int option"
  killed :: bool

definition readline :: "proc \<Rightarrow> pytext \<times> proc" where
  "readline p = (case pending p of
                   [] \<Rightarrow> (PyBytes [], p)
                 | l # ls \<Rightarrow> (PyBytes l, p\<lparr>pending := ls\<rparr>))"

definition poll :: "proc \<Rightarrow> int option" where
  "poll p = returncode p"

definition kill :: "proc \<Rightarrow> proc" where
  "kill p = p\<lparr>killed := True\<rparr>"

fun text_truthy :: "pytext \<Rightarrow> bool" where
  "text_truthy (PyBytes s) = (s \<noteq> [])"
| "text_truthy (PyStr s) = (s \<noteq> [])"

fun text_bytes :: "pytext \<Rightarrow> string" where
  "text_bytes (PyBytes s) = s"
| "text_bytes (PyStr s) = s"

section \<open>The class \<open>rtl\<close> and its reader\<close>

record rtl =
  rtl_server :: pyval
  rtl_port :: pyval
  electric_meter_id :: pyval
  gas_meter_id :: pyval
  water_meter_id :: pyval

text \<open>
  The loop of \<open>get_rtl_values\<close>, with \<open>n = len(filterids)\<close>. The \<open>break\<close> leaves
  the loop without running the \<open>else\<close> branch, which kills the process. The handler
  catches \<open>ValueError\<close> only: any other exception of \<open>json.loads\<close> leaves the
  function, and the process is not killed. A loop that never ends has the value \<open>None\<close>.
\<close>

partial_function (option) rtl_read_loop ::
  "pylib \<Rightarrow> nat \<Rightarrow> nat \<Rightarrow> pyval list \<Rightarrow> proc \<Rightarrow> ((exn + pyval list) \<times> proc) option" where
  "rtl_read_loop lib n found result p =
     (if found < n then
        (case readline p of (output, p') \<Rightarrow>
           if output = PyStr [] \<and> poll p' \<noteq> None then Some (Inr result, p')
           else if text_truthy output then
             (case json_loads lib (text_bytes output) of
                Inr d \<Rightarrow> rtl_read_loop lib n (found + 1) (result @ [d]) p'
              | Inl e \<Rightarrow>
                 if e = ValueError then rtl_read_loop lib n found result p'
                 else Some (Inl e, p'))
           else rtl_read_loop lib n found result p')
      else Some (Inr result, kill p))"

text \<open>
  \<open>popen\<close> is the operating system: it gives, for a command line, the process that
  \<open>subprocess.Popen\<close> starts.
\<close>

definition command_line :: "pylib \<Rightarrow> rtl \<Rightarrow> string \<Rightarrow> string list \<Rightarrow> string list" where
  "command_line lib self msgtype filterids =
     (let ids = join '','' filterids;
          server = py_str lib (rtl_server self) @ '':'' @ py_str lib (rtl_port self)
      in [''rtlamr'', ''-format'', ''json'', ''-msgtype'', msgtype,
          ''-server'', server, ''-filterid'', ids, ''-single'', ''true''])"

definition get_rtl_values ::
  "pylib \<Rightarrow> (string list \<Rightarrow> proc) \<Rightarrow> rtl \<Rightarrow> string \<Rightarrow> string list \<Rightarrow>
   ((exn + pyval list) \<times> proc) option" where
  "get_rtl_values lib popen self msgtype filterids =
     rtl_read_loop lib (length filterids) 0 [] (popen (command_line lib self msgtype filterids))"

section \<open>The weather reader\<close>

text \<open>
  The loop of \<open>get_values\<close> has the same shape, with two flags as its condition.
  Inside the \<open>try\<close>, \<open>foundH = 1\<close> is assigned before \<open>float(d['humidity'])\<close> is
  evaluated, so a \<open>ValueError\<close> of the conversion leaves the flag set, skips the rest of
  the line and goes on; any other exception, of \<open>json.loads\<close> too, leaves the function. The dew point that
  \<open>get_values\<close> computes once both flags are set is modelled in the section on the dew
  point: the loop gives the humidity and the temperature that were read.
\<close>

record weather =
  foundH :: bool
  foundT :: bool
  humidity :: real
  temperatureC :: real

definition read_temperature :: "pylib \<Rightarrow> pyval \<Rightarrow> weather \<Rightarrow> exn + weather" where
  "read_temperature lib d s =
     and_then (py_contains ''temperature_C'' d) (\<lambda>present.
       if present then
         (case and_then (py_getitem d ''temperature_C'') (py_float lib) of
            Inr x \<Rightarrow> Inr (s\<lparr>foundT := True, temperatureC := x\<rparr>)
          | Inl ValueError \<Rightarrow> Inr (s\<lparr>foundT := True\<rparr>)
          | Inl e \<Rightarrow> Inl e)
       else Inr s)"

definition read_weather_line :: "pylib \<Rightarrow> pyval \<Rightarrow> weather \<Rightarrow> exn + weather" where
  "read_weather_line lib d s =
     and_then (py_contains ''humidity'' d) (\<lambda>present.
       if present then
         (case and_then (py_getitem d ''humidity'') (py_float lib) of
            Inr x \<Rightarrow> read_temperature lib d (s\<lparr>foundH := True, humidity := x\<rparr>)
          | Inl ValueError \<Rightarrow> Inr (s\<lparr>foundH := True\<rparr>)
          | Inl e \<Rightarrow> Inl e)
       else read_temperature lib d s)"

partial_function (option) get_values_loop ::
  "pylib \<Rightarrow> weather \<Rightarrow> proc \<Rightarrow> ((exn + weather option) \<times> proc) option" where
  "get_values_loop lib s p =
     (if \<not> foundH s \<or> \<not> foundT s then
        (case readline p of (output, p') \<Rightarrow>
           if output = PyStr [] \<and> poll p' \<noteq> None then Some (Inr None, p')
           else if text_truthy output then
             (case json_loads lib (text_bytes output) of
                Inl e \<Rightarrow>
                 if e = ValueError then get_values_loop lib s p' else Some (Inl e, p')
              | Inr d \<Rightarrow>
                 (case read_weather_line lib d s of
                    Inl e \<Rightarrow> Some (Inl e, p')
                  | Inr s' \<Rightarrow> get_values_loop lib s' p'))
           else get_values_loop lib s p')
      else Some (Inr (Some s), kill p))"

section \<open>The meter value extractor\<close>

text \<open>
  The condition of one branch of the loop over the decoded messages,
  \<open>meter_id and field in item["Message"] and str(item["Message"][field]) == str(meter_id)\<close>,
  evaluated left to right; it stands outside the \<open>try\<close>, so what it raises leaves
  the function.
\<close>

definition id_matches :: "pylib \<Rightarrow> pyval \<Rightarrow> string \<Rightarrow> pyval \<Rightarrow> exn + bool" where
  "id_matches lib meter_id field item =
     (if \<not> py_truthy meter_id then Inr False
      else and_then (py_getitem item ''Message'') (\<lambda>m.
           and_then (py_contains field m) (\<lambda>present.
             if \<not> present then Inr False
             else and_then (py_getitem m field) (\<lambda>v.
                  Inr (py_str lib v = py_str lib meter_id)))))"

text \<open>
  The body of the \<open>try\<close>:
  \<open>raw = item["Message"]["Consumption"]; float(raw)/100.0\<close>.
\<close>

definition consumption_reading :: "pylib \<Rightarrow> pyval \<Rightarrow> exn + real" where
  "consumption_reading lib item =
     and_then (py_getitem item ''Message'') (\<lambda>m.
     and_then (py_getitem m ''Consumption'') (\<lambda>raw.
     and_then (py_float lib raw) (\<lambda>x. Inr (x / 100))))"

text \<open>
  The \<open>try\<close> with its two handlers: \<open>KeyError\<close> and \<open>ValueError\<close> are printed
  and the dictionary stays as it is; any other exception propagates.
\<close>

definition store_reading ::
  "pylib \<Rightarrow> string \<Rightarrow> pyval \<Rightarrow> (string \<rightharpoonup> real) \<Rightarrow> exn + (string \<rightharpoonup> real)" where
  "store_reading lib key item d =
     (case consumption_reading lib item of
        Inr x \<Rightarrow> Inr (d(key \<mapsto> x))
      | Inl KeyError \<Rightarrow> Inr d
      | Inl ValueError \<Rightarrow> Inr d
      | Inl e \<Rightarrow> Inl e)"

text \<open>The loop \<open>for item in l\<close> of \<open>__get_gas_and_electric_reading\<close>.\<close>

fun extract_items ::
  "pylib \<Rightarrow> pyval \<Rightarrow> pyval \<Rightarrow> pyval list \<Rightarrow> (string \<rightharpoonup> real) \<Rightarrow> exn + (string \<rightharpoonup> real)" where
  "extract_items lib gas elec [] d = Inr d"
| "extract_items lib gas elec (item # l) d =
     and_then (id_matches lib gas ''EndpointID'' item) (\<lambda>is_gas.
       if is_gas then and_then (store_reading lib ''gas'' item d) (extract_items lib gas elec l)
       else and_then (id_matches lib elec ''ID'' item) (\<lambda>is_elec.
         if is_elec then and_then (store_reading lib ''electric'' item d) (extract_items lib gas elec l)
         else extract_items lib gas elec l d))"

text \<open>
  The local variables \<open>le\<close> and \<open>lg\<close> are assigned only under their \<open>if\<close>, so each
  is an option: \<open>None\<close> is a name that was never bound, and reading it in
  \<open>l = le + lg\<close> raises \<open>UnboundLocalError\<close>. An exception that leaves the reader
  leaves the extraction too.
\<close>

definition read_if_any ::
  "pylib \<Rightarrow> (string list \<Rightarrow> proc) \<Rightarrow> rtl \<Rightarrow> string \<Rightarrow> string list \<Rightarrow>
   (exn + pyval list option) option" where
  "read_if_any lib popen self msgtype ids =
     (if length ids > 0
      then map_option (\<lambda>r. map_sum id Some (fst r)) (get_rtl_values lib popen self msgtype ids)
      else Some (Inr None))"

definition get_gas_and_electric_reading_internal ::
  "pylib \<Rightarrow> (string list \<Rightarrow> proc) \<Rightarrow> rtl \<Rightarrow> pyval \<Rightarrow> pyval \<Rightarrow> (string \<rightharpoonup> real) outcome" where
  "get_gas_and_electric_reading_internal lib popen self gas elec =
     (let gas_ids = (if py_truthy gas then [py_str lib gas] else []);
          elec_ids = (if py_truthy elec then [py_str lib elec] else [])
      in if length gas_ids + length elec_ids = 0 then Returns Map.empty
         else case read_if_any lib popen self ''scm'' elec_ids of
                None \<Rightarrow> Hangs
              | Some (Inl e) \<Rightarrow> Raises e
              | Some (Inr le) \<Rightarrow>
                 (case read_if_any lib popen self ''scm+'' gas_ids of
                    None \<Rightarrow> Hangs
                  | Some (Inl e) \<Rightarrow> Raises e
                  | Some (Inr lg) \<Rightarrow>
                     (case le of
                        None \<Rightarrow> Raises UnboundLocalError
                      | Some le' \<Rightarrow>
                         (case lg of
                            None \<Rightarrow> Raises UnboundLocalError
                          | Some lg' \<Rightarrow>
                             (case extract_items lib gas elec (le' @ lg') Map.empty of
                                Inl e \<Rightarrow> Raises e
                              | Inr d \<Rightarrow> Returns d)))))"

definition get_gas_and_electric_reading ::
  "pylib \<Rightarrow> (string list \<Rightarrow> proc) \<Rightarrow> rtl \<Rightarrow> (string \<rightharpoonup> real) outcome" where
  "get_gas_and_electric_reading lib popen self =
     get_gas_and_electric_reading_internal lib popen self (gas_meter_id self) (electric_meter_id self)"

text \<open>
  \<open>get_water_reading\<close>: the body of its \<open>try\<close> is
  \<open>raw = d[0]["Message"]["Consumption"]; hcf = float(raw)/100.0\<close>, with handlers for
  \<open>IndexError\<close>, \<open>KeyError\<close> and \<open>ValueError\<close>, each returning \<open>None\<close>.
\<close>

definition water_consumption :: "pylib \<Rightarrow> pyval list \<Rightarrow> exn + real" where
  "water_consumption lib d = and_then (py_first d) (consumption_reading lib)"

definition get_water_reading ::
  "pylib \<Rightarrow> (string list \<Rightarrow> proc) \<Rightarrow> rtl \<Rightarrow> real option outcome" where
  "get_water_reading lib popen self =
     (if water_meter_id self = PNone then Returns None
      else case get_rtl_values lib popen self ''r900bcd'' [py_str lib (water_meter_id self)] of
             None \<Rightarrow> Hangs
           | Some (Inl e, p) \<Rightarrow> Raises e
           | Some (Inr d, p) \<Rightarrow>
              (case water_consumption lib d of
                 Inr hcf \<Rightarrow> Returns (Some hcf)
               | Inl IndexError \<Rightarrow> Returns None
               | Inl KeyError \<Rightarrow> Returns None
               | Inl ValueError \<Rightarrow> Returns None
               | Inl e \<Rightarrow> Raises e))"

section \<open>The orchestrator: tag dictionaries in a store, batches sent to the sink\<close>

text \<open>
  A tag dictionary is a Python object that caller and callee share, so dictionaries
  live in a store and \<open>tags\<close> is an address. \<open>written\<close> lists the batches handed to
  \<open>influxclient.write_points\<close>.
\<close>

type_synonym addr = nat

record point =
  pt_measurement :: string
  pt_tags :: addr
  pt_time :: string
  pt_fields :: "(string \<times> real) list"

record world =
  cells :: "addr \<rightharpoonup> (string \<rightharpoonup> pyval)"
  next_addr :: addr
  written :: "point list list"

definition dict_at :: "world \<Rightarrow> addr \<Rightarrow> (string \<rightharpoonup> pyval)" where
  "dict_at w a = (case cells w a of None \<Rightarrow> Map.empty | Some m \<Rightarrow> m)"

text \<open>\<open>tags[key] = v\<close>.\<close>

definition setitem :: "world \<Rightarrow> addr \<Rightarrow> string \<Rightarrow> pyval \<Rightarrow> world" where
  "setitem w a key v = w\<lparr>cells := (cells w)(a \<mapsto> (dict_at w a)(key \<mapsto> v))\<rparr>"

text \<open>\<open>tags.copy()\<close>: a new dictionary with the same entries.\<close>

definition dict_copy :: "world \<Rightarrow> addr \<Rightarrow> addr \<times> world" where
  "dict_copy w a =
     (next_addr w, w\<lparr>cells := (cells w)(next_addr w \<mapsto> dict_at w a), next_addr := next_addr w + 1\<rparr>)"

text \<open>The three assignments \<open>meterid\<close>, \<open>units\<close>, \<open>version\<close> that each reading makes.\<close>

definition set_meter_tags :: "world \<Rightarrow> addr \<Rightarrow> pyval \<Rightarrow> string \<Rightarrow> world" where
  "set_meter_tags w a meterid units =
     setitem (setitem (setitem w a ''meterid'' meterid) a ''units'' (PStr units)) a ''version'' (PInt 1)"

definition write_points :: "bool \<Rightarrow> point list \<Rightarrow> world \<Rightarrow> world" where
  "write_points influxclient series w =
     (if influxclient then w\<lparr>written := written w @ [series]\<rparr> else w)"

definition do_water_meter_reading ::
  "pylib \<Rightarrow> (string list \<Rightarrow> proc) \<Rightarrow> rtl \<Rightarrow> bool \<Rightarrow> string \<Rightarrow> addr \<Rightarrow> world \<Rightarrow> world outcome" where
  "do_water_meter_reading lib popen self influxclient timestamp tags w =
     (case get_water_reading lib popen self of
        Hangs \<Rightarrow> Hangs
      | Raises e \<Rightarrow> Raises e
      | Returns None \<Rightarrow> Returns w
      | Returns (Some reading) \<Rightarrow>
         (let w' = set_meter_tags w tags (water_meter_id self) ''hcf'';
              d = \<lparr>pt_measurement = ''water'', pt_tags = tags, pt_time = timestamp,
                   pt_fields = [(''reading'', reading)]\<rparr>
          in Returns (write_points influxclient [d] w')))"

text \<open>
  One branch of \<open>do_gas_electric_meter_reading\<close>: when the reading is there, copy the
  tags, add the meter's tags to the copy and append the point to the series.
\<close>

definition add_point ::
  "(string \<rightharpoonup> real) \<Rightarrow> string \<Rightarrow> pyval \<Rightarrow> string \<Rightarrow> string \<Rightarrow> addr \<Rightarrow>
   point list \<times> world \<Rightarrow> point list \<times> world" where
  "add_point readings name meterid units timestamp tags sw =
     (case readings name of
        None \<Rightarrow> sw
      | Some reading \<Rightarrow>
         (case dict_copy (snd sw) tags of (copy, w1) \<Rightarrow>
            (fst sw @ [\<lparr>pt_measurement = name, pt_tags = copy, pt_time = timestamp,
                         pt_fields = [(''reading'', reading)]\<rparr>],
             set_meter_tags w1 copy meterid units)))"

definition do_gas_electric_meter_reading ::
  "pylib \<Rightarrow> (string list \<Rightarrow> proc) \<Rightarrow> rtl \<Rightarrow> bool \<Rightarrow> string \<Rightarrow> addr \<Rightarrow> world \<Rightarrow> world outcome" where
  "do_gas_electric_meter_reading lib popen self influxclient timestamp tags w =
     (case get_gas_and_electric_reading lib popen self of
        Hangs \<Rightarrow> Hangs
      | Raises e \<Rightarrow> Raises e
      | Returns readings \<Rightarrow>
         (let sw1 = add_point readings ''gas'' (gas_meter_id self) ''ccf'' timestamp tags ([], w);
              sw2 = add_point readings ''electric'' (electric_meter_id self) ''kwh'' timestamp tags sw1
          in Returns (write_points influxclient (fst sw2) (snd sw2))))"

section \<open>The scheduler loop\<close>

text \<open>
  \<open>beat\<close> starts at 0 and grows by one per iteration of \<open>while True\<close>;
  \<open>interval\<close> is \<open>int(args.interval)\<close>, in minutes. The loop never ends, so
  \<open>main_loop k\<close> gives the reads that its first \<open>k\<close> iterations call, each with the
  tick that calls it, for reads that return.
\<close>

datatype read_call = GasElectric nat | Water nat

definition water_due :: "nat \<Rightarrow> int \<Rightarrow> bool" where
  "water_due beat interval \<longleftrightarrow> (int beat * interval) mod (6 * 60) = 0"

definition tick_reads :: "bool \<Rightarrow> int \<Rightarrow> nat \<Rightarrow> read_call list" where
  "tick_reads r interval beat =
     (if r then GasElectric beat # (if water_due beat interval then [Water beat] else [])
      else [])"

fun main_loop :: "nat \<Rightarrow> bool \<Rightarrow> int \<Rightarrow> nat \<Rightarrow> read_call list" where
  "main_loop 0 r interval beat = []"
| "main_loop (Suc k) r interval beat = tick_reads r interval beat @ main_loop k r interval (beat + 1)"

fun water_ticks :: "read_call list \<Rightarrow> nat list" where
  "water_ticks [] = []"
| "water_ticks (Water b # cs) = b # water_ticks cs"
| "water_ticks (GasElectric b # cs) = water_ticks cs"

fun gas_electric_ticks :: "read_call list \<Rightarrow> nat list" where
  "gas_electric_ticks [] = []"
| "gas_electric_ticks (GasElectric b # cs) = b # gas_electric_ticks cs"
| "gas_electric_ticks (Water b # cs) = gas_electric_ticks cs"

section \<open>The dew point in double precision\<close>

text \<open>
  \<open>gamma\<close> and \<open>dewpoint\<close> compute with Python floats and, from the result of
  \<open>np.log\<close> on, with \<open>float64\<close> of numpy. Both are IEEE 754 doubles: every operation
  returns the double nearest to the exact result, a tie going to the even significand. A
  finite double is the real number it denotes. \<open>rne\<close> rounds a real to the nearest
  integer, ties to even. \<open>quantum x\<close> is the distance between neighbouring doubles at the
  magnitude of \<open>x\<close>: it is \<open>2 ^ (e - 52)\<close> when \<open>2 ^ e \<le> \<bar>x\<bar> < 2 ^ (e + 1)\<close>, and it
  stops shrinking at the subnormal numbers, where \<open>e = - 1022\<close>. \<open>rnd x\<close> is the
  multiple of the quantum nearest to \<open>x\<close>.
\<close>

definition rne :: "real \<Rightarrow> int" where
  "rne x = (let f = \<lfloor>x\<rfloor>; d = x - of_int f
            in if d < 1 / 2 then f else if 1 / 2 < d then f + 1 else if even f then f else f + 1)"














section \<open>A concrete library for the examples\<close>

text \<open>
  The closed examples below need a decoder and a number parser that evaluate. The
  decoder is a finite table from the lines of the example to the values that
  \<open>json.loads\<close> gives for them. Of the other lines, one that opens 100000 arrays or
  more raises \<open>RecursionError\<close>, as it does on every CPython whose recursion limit was
  not raised, and the rest is malformed. The number parser reads unsigned decimal digit
  strings, on which it agrees with \<open>float\<close>. The examples never take \<open>str\<close> of a
  float, a list or a dictionary.
\<close>

definition digit_val :: "char \<Rightarrow> nat option" where
  "digit_val ch = (let k = of_char ch in if 48 \<le> k \<and> k \<le> (57::nat) then Some (k - 48) else None)"

fun digits_val :: "nat \<Rightarrow> string \<Rightarrow> nat option" where
  "digits_val acc [] = Some acc"
| "digits_val acc (ch # cs) =
     (case digit_val ch of None \<Rightarrow> None | Some k \<Rightarrow> digits_val (10 * acc + k) cs)"

definition float_digits :: "string \<Rightarrow> real option" where
  "float_digits s = (if s = [] then None else map_option real (digits_val 0 s))"

definition deeply_nested :: "string \<Rightarrow> bool" where
  "deeply_nested s \<longleftrightarrow> 100000 \<le> length (takeWhile (\<lambda>ch. ch = CHR ''['') s)"

definition table_loads :: "(string \<times> pyval) list \<Rightarrow> string \<Rightarrow> exn + pyval" where
  "table_loads tbl s =
     (case map_of tbl s of
        Some v \<Rightarrow> Inr v
      | None \<Rightarrow> if deeply_nested s then Inl RecursionError else Inl ValueError)"

definition table_lib :: "(string \<times> pyval) list \<Rightarrow> pylib" where
  "table_lib tbl =
     \<lparr>json_loads = table_loads tbl, float_of_str = float_digits, repr_of = (\<lambda>v. [])\<rparr>"

definition deep_line :: string where
  "deep_line = replicate 100000 CHR ''['' @ ''\<newline>''"

definition stream :: "string list \<Rightarrow> proc" where
  "stream ls = \<lparr>pending = ls, returncode = Some 0, killed = False\<rparr>"

definition quoted :: "string \<Rightarrow> string" where
  "quoted s = CHR 0x22 # s @ [CHR 0x22]"

text \<open>
  One line of decoder output, \<open>{"Message":{"<field>":"<ident>","Consumption":<raw>}}\<close>
  with its newline, and the value \<open>json.loads\<close> gives for it.
\<close>

definition meter_line :: "string \<Rightarrow> string \<Rightarrow> string \<Rightarrow> string" where
  "meter_line field ident raw =
     ''{'' @ quoted ''Message'' @ '':{'' @ quoted field @ '':'' @ quoted ident @ '','' @
     quoted ''Consumption'' @ '':'' @ raw @ ''}}\<newline>''"

definition meter_msg :: "string \<Rightarrow> string \<Rightarrow> pyval \<Rightarrow> pyval" where
  "meter_msg field ident consumption =
     PDict [(''Message'', PDict [(field, PStr ident), (''Consumption'', consumption)])]"

definition example_rtl :: "pyval \<Rightarrow> pyval \<Rightarrow> pyval \<Rightarrow> rtl" where
  "example_rtl gas elec water =
     \<lparr>rtl_server = PStr ''192.168.5.20'', rtl_port = PInt 1234,
      electric_meter_id = elec, gas_meter_id = gas, water_meter_id = water\<rparr>"

text \<open>
  An operating system for the examples: the process started for a command line prints
  the lines listed for the message type, which is the fifth word of the command line,
  and exits.
\<close>

definition example_popen :: "(string \<times> string list) list \<Rightarrow> string list \<Rightarrow> proc" where
  "example_popen tbl cmd = stream (case map_of tbl (cmd ! 4) of None \<Rightarrow> [] | Some ls \<Rightarrow> ls)"

text \<open>
  A line without the \<open>Message\<close> wrapper, \<open>{"<field>":"<ident>","Consumption":<raw>}\<close>,
  and its value.
\<close>

definition flat_line :: "string \<Rightarrow> string \<Rightarrow> string \<Rightarrow> string" where
  "flat_line field ident raw =
     ''{'' @ quoted field @ '':'' @ quoted ident @ '','' @
     quoted ''Consumption'' @ '':'' @ raw @ ''}\<newline>''"

definition flat_msg :: "string \<Rightarrow> string \<Rightarrow> pyval \<Rightarrow> pyval" where
  "flat_msg field ident consumption = PDict [(field, PStr ident), (''Consumption'', consumption)]"

text \<open>
  The store when the scheduler calls a read: the one dictionary \<open>{'hostname': hostname}\<close>
  at address 0, and nothing written yet.
\<close>

definition example_world :: world where
  "example_world = \<lparr>cells = [0 \<mapsto> [''hostname'' \<mapsto> PStr ''pi'']], next_addr = 1, written = []\<rparr>"

text \<open>
  A household with the three meters configured, and a decoder that prints one message of
  the right meter for each message type.
\<close>

definition household_lib :: pylib where
  "household_lib = table_lib
     [(meter_line ''ID'' ''2'' (quoted ''4500''), meter_msg ''ID'' ''2'' (PStr ''4500'')),
      (meter_line ''EndpointID'' ''1'' (quoted ''100''), meter_msg ''EndpointID'' ''1'' (PStr ''100'')),
      (meter_line ''ID'' ''77'' (quoted ''150''), meter_msg ''ID'' ''77'' (PStr ''150''))]"

definition household_popen :: "string list \<Rightarrow> proc" where
  "household_popen = example_popen
     [(''scm'', [meter_line ''ID'' ''2'' (quoted ''4500'')]),
      (''scm+'', [meter_line ''EndpointID'' ''1'' (quoted ''100'')]),
      (''r900bcd'', [meter_line ''ID'' ''77'' (quoted ''150'')])]"

definition household_rtl :: rtl where
  "household_rtl = example_rtl (PStr ''1'') (PStr ''2'') (PStr ''77'')"



section \<open>Vocabulary for the statements about the reader\<close>

text \<open>
  The messages that the loop decodes from a list of lines, up to the first line on which
  \<open>json.loads\<close> raises an exception that the handler does not catch (empty reads and
  malformed lines give none); the lines that are left once \<open>k\<close> messages have been
  decoded; the first exception that the handler does not catch, and the lines that follow
  the line that raises it.
\<close>

fun decoded :: "pylib \<Rightarrow> string list \<Rightarrow> pyval list" where
  "decoded lib [] = []"
| "decoded lib (l # ls) =
     (if l = [] then decoded lib ls
      else case json_loads lib l of
             Inr d \<Rightarrow> d # decoded lib ls
           | Inl e \<Rightarrow> if e = ValueError then decoded lib ls else [])"

fun after_parsed :: "pylib \<Rightarrow> nat \<Rightarrow> string list \<Rightarrow> string list" where
  "after_parsed lib 0 ls = ls"
| "after_parsed lib (Suc k) [] = []"
| "after_parsed lib (Suc k) (l # ls) =
     (if l = [] then after_parsed lib (Suc k) ls
      else case json_loads lib l of
             Inr d \<Rightarrow> after_parsed lib k ls
           | Inl e \<Rightarrow> after_parsed lib (Suc k) ls)"

fun uncaught :: "pylib \<Rightarrow> string list \<Rightarrow> (exn \<times> string list) option" where
  "uncaught lib [] = None"
| "uncaught lib (l # ls) =
     (if l = [] then uncaught lib ls
      else case json_loads lib l of
             Inr d \<Rightarrow> uncaught lib ls
           | Inl e \<Rightarrow> if e = ValueError then uncaught lib ls else Some (e, ls))"

section \<open>Vocabulary for the statements about the tag dictionaries\<close>

text \<open>
  The tags of a measurement: the base tags with the three entries that each reading adds;
  and the point built for a reading.
\<close>

definition meter_tags :: "(string \<rightharpoonup> pyval) \<Rightarrow> pyval \<Rightarrow> string \<Rightarrow> (string \<rightharpoonup> pyval)" where
  "meter_tags base meterid units =
     base(''meterid'' \<mapsto> meterid, ''units'' \<mapsto> PStr units, ''version'' \<mapsto> PInt 1)"

definition reading_point :: "string \<Rightarrow> addr \<Rightarrow> string \<Rightarrow> real \<Rightarrow> point" where
  "reading_point name a ts v =
     \<lparr>pt_measurement = name, pt_tags = a, pt_time = ts, pt_fields = [(''reading'', v)]\<rparr>"

section \<open>Vocabulary for the statements about the dew point\<close>



section \<open>Steps of the read loop\<close>

lemma rtl_read_loop_done:
  "\<not> found < n \<Longrightarrow> rtl_read_loop lib n found result p = Some (Inr result, kill p)"
  by (subst rtl_read_loop.simps) simp

lemma rtl_read_loop_parsed:
  "found < n \<Longrightarrow> pending p = l # ls \<Longrightarrow> l \<noteq> [] \<Longrightarrow> json_loads lib l = Inr d \<Longrightarrow>
   rtl_read_loop lib n found result p =
   rtl_read_loop lib n (found + 1) (result @ [d]) (p\<lparr>pending := ls\<rparr>)"
  by (subst rtl_read_loop.simps) (simp add: readline_def)

lemma rtl_read_loop_malformed:
  "found < n \<Longrightarrow> pending p = l # ls \<Longrightarrow> l \<noteq> [] \<Longrightarrow> json_loads lib l = Inl ValueError \<Longrightarrow>
   rtl_read_loop lib n found result p = rtl_read_loop lib n found result (p\<lparr>pending := ls\<rparr>)"
  by (subst rtl_read_loop.simps) (simp add: readline_def)

lemma rtl_read_loop_uncaught:
  "found < n \<Longrightarrow> pending p = l # ls \<Longrightarrow> l \<noteq> [] \<Longrightarrow> json_loads lib l = Inl e \<Longrightarrow>
   e \<noteq> ValueError \<Longrightarrow>
   rtl_read_loop lib n found result p = Some (Inl e, p\<lparr>pending := ls\<rparr>)"
  by (subst rtl_read_loop.simps) (simp add: readline_def)

lemma rtl_read_loop_blank:
  "found < n \<Longrightarrow> pending p = [] # ls \<Longrightarrow>
   rtl_read_loop lib n found result p = rtl_read_loop lib n found result (p\<lparr>pending := ls\<rparr>)"
  by (subst rtl_read_loop.simps) (simp add: readline_def)

text \<open>
  Once the stream has ended, \<open>readline\<close> returns \<open>b''\<close>. That is not equal to the
  \<open>str\<close> \<open>''\<close>, so the \<open>break\<close> is not taken, and it is not a line to decode:
  the loop reads again, for ever.
\<close>

lemma rtl_read_loop_eof_aux:
  assumes "rtl_read_loop lib n found result p = Some r"
  shows "\<not> (found < n \<and> pending p = [])"
proof (rule rtl_read_loop.raw_induct
         [where P = "\<lambda>lib n found result p r. \<not> (found < n \<and> pending p = [])", OF _ assms])
  fix loop :: "pylib \<Rightarrow> nat \<Rightarrow> nat \<Rightarrow> pyval list \<Rightarrow> proc \<Rightarrow> ((exn + pyval list) \<times> proc) option"
  fix lib n found result p r
  assume IH: "\<And>lib n found result p r. loop lib n found result p = Some r \<Longrightarrow> \<not> (found < n \<and> pending p = [])"
  assume eq: "(if found < n then
        (case readline p of (output, p') \<Rightarrow>
           if output = PyStr [] \<and> poll p' \<noteq> None then Some (Inr result, p')
           else if text_truthy output then
             (case json_loads lib (text_bytes output) of
                Inr d \<Rightarrow> loop lib n (found + 1) (result @ [d]) p'
              | Inl e \<Rightarrow>
                 if e = ValueError then loop lib n found result p'
                 else Some (Inl e, p'))
           else loop lib n found result p')
      else Some (Inr result, kill p)) = Some r"
  show "\<not> (found < n \<and> pending p = [])"
  proof
    assume h: "found < n \<and> pending p = []"
    with eq have "loop lib n found result p = Some r"
      by (simp add: readline_def)
    then have "\<not> (found < n \<and> pending p = [])" by (rule IH)
    with h show False by simp
  qed
qed

lemma rtl_read_loop_eof:
  "found < n \<Longrightarrow> pending p = [] \<Longrightarrow> rtl_read_loop lib n found result p = None"
  using rtl_read_loop_eof_aux [of lib n found result p]
  by (cases "rtl_read_loop lib n found result p") auto

lemma pending_same: "pending p = ls \<Longrightarrow> p\<lparr>pending := ls\<rparr> = p"
  by (cases p) simp

text \<open>
  One line of the stream, read while identifiers are still missing: what the loop does
  with it, by the value of \<open>json.loads\<close>.
\<close>

lemma rtl_read_loop_line:
  assumes "found < n" and "pending p = l # ls"
  shows "rtl_read_loop lib n found result p =
     (if l = [] then rtl_read_loop lib n found result (p\<lparr>pending := ls\<rparr>)
      else case json_loads lib l of
             Inr d \<Rightarrow> rtl_read_loop lib n (found + 1) (result @ [d]) (p\<lparr>pending := ls\<rparr>)
           | Inl e \<Rightarrow> if e = ValueError then rtl_read_loop lib n found result (p\<lparr>pending := ls\<rparr>)
                      else Some (Inl e, p\<lparr>pending := ls\<rparr>))"
  using assms by (subst rtl_read_loop.simps) (simp add: readline_def split: sum.splits)

lemma rtl_read_loop_returns:
  "pending p = ls \<Longrightarrow> n - found \<le> length (decoded lib ls) \<Longrightarrow>
   rtl_read_loop lib n found result p =
   Some (Inr (result @ take (n - found) (decoded lib ls)),
         kill (p\<lparr>pending := after_parsed lib (n - found) ls\<rparr>))"
proof (induction ls arbitrary: p found result)
  case Nil
  then have "\<not> found < n" by simp
  with Nil show ?case by (simp add: rtl_read_loop_done pending_same)
next
  case (Cons l ls)
  show ?case
  proof (cases "found < n")
    case False
    with Cons.prems show ?thesis by (simp add: rtl_read_loop_done pending_same)
  next
    case True
    then obtain k where k: "n - found = Suc k" by (cases "n - found") auto
    then have k': "n - (found + 1) = k" by simp
    let ?p = "p\<lparr>pending := ls\<rparr>"
    have pl: "pending ?p = ls" by simp
    note step = rtl_read_loop_line [OF True Cons.prems(1), of lib result]
    show ?thesis
    proof (cases "l = []")
      case True
      with Cons.prems have "n - found \<le> length (decoded lib ls)" by simp
      from Cons.IH [OF pl this] step True k show ?thesis by simp
    next
      case False
      show ?thesis
      proof (cases "json_loads lib l")
        case (Inr d)
        with False Cons.prems k have "n - (found + 1) \<le> length (decoded lib ls)" by simp
        from Cons.IH [OF pl this, of "result @ [d]"] step Inr False k k' show ?thesis by simp
      next
        case (Inl e)
        show ?thesis
        proof (cases "e = ValueError")
          case True
          with Inl False Cons.prems have "n - found \<le> length (decoded lib ls)" by simp
          from Cons.IH [OF pl this] step Inl True False k show ?thesis by simp
        next
          case ne: False
          with Inl False Cons.prems k show ?thesis by simp
        qed
      qed
    qed
  qed
qed

lemma rtl_read_loop_hangs:
  "pending p = ls \<Longrightarrow> length (decoded lib ls) < n - found \<Longrightarrow> uncaught lib ls = None \<Longrightarrow>
   rtl_read_loop lib n found result p = None"
proof (induction ls arbitrary: p found result)
  case Nil
  then show ?case by (simp add: rtl_read_loop_eof)
next
  case (Cons l ls)
  from Cons.prems have lt: "found < n" by simp
  let ?p = "p\<lparr>pending := ls\<rparr>"
  have pl: "pending ?p = ls" by simp
  note step = rtl_read_loop_line [OF lt Cons.prems(1), of lib result]
  show ?case
  proof (cases "l = []")
    case True
    with Cons.prems have "length (decoded lib ls) < n - found" "uncaught lib ls = None" by simp_all
    from Cons.IH [OF pl this] step True show ?thesis by simp
  next
    case False
    show ?thesis
    proof (cases "json_loads lib l")
      case (Inr d)
      with False Cons.prems have "length (decoded lib ls) < n - (found + 1)" "uncaught lib ls = None"
        by simp_all
      from Cons.IH [OF pl this] step Inr False show ?thesis by simp
    next
      case (Inl e)
      with False Cons.prems have e: "e = ValueError" by (simp split: if_splits)
      with Inl False Cons.prems have "length (decoded lib ls) < n - found" "uncaught lib ls = None"
        by simp_all
      from Cons.IH [OF pl this] step Inl e False show ?thesis by simp
    qed
  qed
qed

lemma rtl_read_loop_raises:
  "pending p = ls \<Longrightarrow> length (decoded lib ls) < n - found \<Longrightarrow> uncaught lib ls = Some (e, rest) \<Longrightarrow>
   rtl_read_loop lib n found result p = Some (Inl e, p\<lparr>pending := rest\<rparr>)"
proof (induction ls arbitrary: p found result)
  case Nil
  then show ?case by simp
next
  case (Cons l ls)
  from Cons.prems have lt: "found < n" by simp
  let ?p = "p\<lparr>pending := ls\<rparr>"
  have pl: "pending ?p = ls" by simp
  note step = rtl_read_loop_line [OF lt Cons.prems(1), of lib result]
  show ?case
  proof (cases "l = []")
    case True
    with Cons.prems have "length (decoded lib ls) < n - found" "uncaught lib ls = Some (e, rest)"
      by simp_all
    from Cons.IH [OF pl this] step True show ?thesis by simp
  next
    case False
    show ?thesis
    proof (cases "json_loads lib l")
      case (Inr d)
      with False Cons.prems
      have "length (decoded lib ls) < n - (found + 1)" "uncaught lib ls = Some (e, rest)"
        by simp_all
      from Cons.IH [OF pl this] step Inr False show ?thesis by simp
    next
      case (Inl e')
      show ?thesis
      proof (cases "e' = ValueError")
        case True
        with Inl False Cons.prems
        have "length (decoded lib ls) < n - found" "uncaught lib ls = Some (e, rest)"
          by simp_all
        from Cons.IH [OF pl this] step Inl True False show ?thesis by simp
      next
        case ne: False
        with Inl False Cons.prems step show ?thesis by simp
      qed
    qed
  qed
qed

text \<open>The three outcomes of the reader, by the lines of the stream.\<close>

lemma get_rtl_values_cases:
  "get_rtl_values lib popen self msgtype ids =
     (let p = popen (command_line lib self msgtype ids); ls = decoded lib (pending p)
      in if length ids \<le> length ls
         then Some (Inr (take (length ids) ls),
                    kill (p\<lparr>pending := after_parsed lib (length ids) (pending p)\<rparr>))
         else case uncaught lib (pending p) of
                None \<Rightarrow> None
              | Some (e, rest) \<Rightarrow> Some (Inl e, p\<lparr>pending := rest\<rparr>))"
proof -
  let ?p = "popen (command_line lib self msgtype ids)"
  show ?thesis
  proof (cases "length ids \<le> length (decoded lib (pending ?p))")
    case True
    then show ?thesis
      by (simp add: get_rtl_values_def rtl_read_loop_returns [OF refl] Let_def)
  next
    case False
    then show ?thesis
      by (cases "uncaught lib (pending ?p)")
         (auto simp: get_rtl_values_def rtl_read_loop_hangs [OF refl] rtl_read_loop_raises [OF refl]
               Let_def)
  qed
qed

text \<open>The weather loop skips a malformed line in the same way.\<close>

lemma get_values_loop_malformed:
  "\<not> foundH s \<or> \<not> foundT s \<Longrightarrow> pending p = bad # ls \<Longrightarrow> json_loads lib bad = Inl ValueError \<Longrightarrow>
   get_values_loop lib s p = get_values_loop lib s (p\<lparr>pending := ls\<rparr>)"
  by (subst get_values_loop.simps) (auto simp: readline_def)

section \<open>Claims about the streaming process reader\<close>

lemma decoded_append_caught:
  "uncaught lib xs = None \<Longrightarrow> decoded lib (xs @ ys) = decoded lib xs @ decoded lib ys"
  by (induction xs) (auto split: sum.splits if_splits)

lemma uncaught_append_caught:
  "uncaught lib xs = None \<Longrightarrow> uncaught lib (xs @ ys) = uncaught lib ys"
  by (induction xs) (auto split: sum.splits if_splits)

text \<open>
  A line on which \<open>json.loads\<close> raises \<open>ValueError\<close> is skipped: on streams that
  raise nothing else before it, the reader returns the same messages with the line as
  without it.
\<close>

lemma value_error_line_skipped:
  assumes bad: "json_loads lib bad = Inl ValueError"
    and pre: "uncaught lib pre = None"
    and withl: "pending (popen (command_line lib self msgtype filterids)) = pre @ bad # post"
    and without: "pending (popen' (command_line lib self msgtype filterids)) = pre @ post"
  shows "map_option fst (get_rtl_values lib popen self msgtype filterids) =
         map_option fst (get_rtl_values lib popen' self msgtype filterids)"
proof -
  from bad have d: "decoded lib (bad # post) = decoded lib post"
    and u: "uncaught lib (bad # post) = uncaught lib post"
    by simp_all
  have "decoded lib (pre @ bad # post) = decoded lib (pre @ post)"
    by (simp only: decoded_append_caught [OF pre] d)
  moreover have "uncaught lib (pre @ bad # post) = uncaught lib (pre @ post)"
    by (simp only: uncaught_append_caught [OF pre] u)
  ultimately show ?thesis
    using withl without
    by (auto simp: get_rtl_values_cases Let_def split: option.splits)
qed

text \<open>
  The line of 100000 opening brackets: the example decoder raises \<open>RecursionError\<close> on
  it, whatever the table holds for lines that do not start with a bracket.
\<close>

lemma hd_deep_line: "hd deep_line = CHR ''[''" and deep_line_not_empty: "deep_line \<noteq> []"
  by (simp_all add: deep_line_def hd_append)

lemma deeply_nested_deep_line: "deeply_nested deep_line"
proof -
  have "takeWhile (\<lambda>ch. ch = CHR ''['') (replicate n CHR ''['' @ ''\<newline>'') = replicate n CHR ''[''" for n
    by (induction n) simp_all
  then have "takeWhile (\<lambda>ch. ch = CHR ''['') deep_line = replicate 100000 CHR ''[''"
    unfolding deep_line_def .
  then show ?thesis
    by (simp add: deeply_nested_def)
qed

lemma table_loads_deep_line:
  assumes "\<And>k. k \<in> fst ` set tbl \<Longrightarrow> hd k \<noteq> CHR ''[''"
  shows "table_loads tbl deep_line = Inl RecursionError"
proof -
  have "deep_line \<notin> fst ` set tbl"
    using assms hd_deep_line by blast
  then have "map_of tbl deep_line = None"
    by (simp add: map_of_eq_None_iff)
  then show ?thesis
    by (simp add: table_loads_def deeply_nested_deep_line)
qed

lemmas example_defs = table_lib_def table_loads_def deeply_nested_def meter_line_def quoted_def
  example_popen_def stream_def command_line_def example_rtl_def

text \<open>
  C8. The specification says that a line that is not valid JSON is skipped and never ends
  the read loop, so that a valid line after it is still returned. That holds for the lines
  on which \<open>json.loads\<close> raises \<open>ValueError\<close>, which the handler catches. On a line
  of deeply nested brackets \<open>json.loads\<close> raises \<open>RecursionError\<close>, which the
  handler does not catch: the exception leaves \<open>get_rtl_values\<close>, the valid line that
  follows is never read and the process is not killed.
\<close>

theorem deep_line_ends_read_loop:
  "get_rtl_values
     (table_lib [(meter_line ''ID'' ''123'' (quoted ''4500''), meter_msg ''ID'' ''123'' (PStr ''4500''))])
     (example_popen [(''scm'', [deep_line, meter_line ''ID'' ''123'' (quoted ''4500'')])])
     (example_rtl PNone (PStr ''123'') PNone) ''scm'' [''123'']
   = Some (Inl RecursionError,
           \<lparr>pending = [meter_line ''ID'' ''123'' (quoted ''4500'')], returncode = Some 0,
            killed = False\<rparr>)"
proof -
  have "table_loads [(meter_line ''ID'' ''123'' (quoted ''4500''), meter_msg ''ID'' ''123'' (PStr ''4500''))]
          deep_line = Inl RecursionError"
    by (rule table_loads_deep_line) (simp add: meter_line_def)
  then show ?thesis
    by (simp add: get_rtl_values_cases table_lib_def example_popen_def stream_def command_line_def
          example_rtl_def deep_line_not_empty)
qed

text \<open>
  C1, as the specification states it: a decoded message is recorded only if its
  identifier is required and not yet seen, and the loop runs until every required
  identifier is recorded. The code has no matching predicate: it leaves the filtering to
  the decoder (\<open>-filterid\<close>) and appends every line that parses, counting lines. With
  identifiers 1 and 2 required, a message of meter 999 followed by one of meter 1 ends
  the loop: both are returned, and meter 2 was never seen.
\<close>

theorem reader_records_unrequired_counterexample:
  "get_rtl_values
     (table_lib [(meter_line ''ID'' ''999'' (quoted ''10''), meter_msg ''ID'' ''999'' (PStr ''10'')),
                 (meter_line ''ID'' ''1'' (quoted ''20''), meter_msg ''ID'' ''1'' (PStr ''20''))])
     (example_popen [(''scm'', [meter_line ''ID'' ''999'' (quoted ''10''),
                                meter_line ''ID'' ''1'' (quoted ''20'')])])
     (example_rtl PNone (PStr ''1'') PNone) ''scm'' [''1'', ''2'']
   = Some (Inr [meter_msg ''ID'' ''999'' (PStr ''10''), meter_msg ''ID'' ''1'' (PStr ''20'')],
           \<lparr>pending = [], returncode = Some 0, killed = True\<rparr>)
   \<and> ''999'' \<notin> set [''1'', ''2'']
   \<and> ''2'' \<notin> set [''999'', ''1'']"
  by (simp add: get_rtl_values_cases example_defs kill_def)

text \<open>
  C1, amended. Every non-empty line that parses is appended to the result, whatever its
  identifier; the loop runs until as many lines have parsed as there are required
  identifiers. When the stream holds that many before any line on which \<open>json.loads\<close>
  raises an exception other than \<open>ValueError\<close>, the process is then killed and the list
  of the first \<open>len(filterids)\<close> decoded messages, in the order read, is returned.
\<close>

theorem reader_returns_first_decoded:
  assumes "length filterids
             \<le> length (decoded lib (pending (popen (command_line lib self msgtype filterids))))"
  shows "get_rtl_values lib popen self msgtype filterids =
           Some (Inr (take (length filterids)
                        (decoded lib (pending (popen (command_line lib self msgtype filterids))))),
                 kill ((popen (command_line lib self msgtype filterids))
                   \<lparr>pending := after_parsed lib (length filterids)
                       (pending (popen (command_line lib self msgtype filterids)))\<rparr>))"
  using assms by (simp add: get_rtl_values_cases Let_def)

theorem reader_returns_first_decoded_witness:
  "get_rtl_values
     (table_lib [(meter_line ''ID'' ''7'' (quoted ''10''), meter_msg ''ID'' ''7'' (PStr ''10'')),
                 (meter_line ''ID'' ''8'' (quoted ''20''), meter_msg ''ID'' ''8'' (PStr ''20''))])
     (example_popen [(''scm'', [meter_line ''ID'' ''7'' (quoted ''10''), ''noise\<newline>'',
                                meter_line ''ID'' ''7'' (quoted ''10''),
                                meter_line ''ID'' ''8'' (quoted ''20'')])])
     (example_rtl PNone (PStr ''7'') PNone) ''scm'' [''7'', ''8'']
   = Some (Inr [meter_msg ''ID'' ''7'' (PStr ''10''), meter_msg ''ID'' ''7'' (PStr ''10'')],
           \<lparr>pending = [meter_line ''ID'' ''8'' (quoted ''20'')], returncode = Some 0,
            killed = True\<rparr>)"
  using reader_returns_first_decoded
    [of "[''7'', ''8'']"
        "table_lib [(meter_line ''ID'' ''7'' (quoted ''10''), meter_msg ''ID'' ''7'' (PStr ''10'')),
                    (meter_line ''ID'' ''8'' (quoted ''20''), meter_msg ''ID'' ''8'' (PStr ''20''))]"
        "example_popen [(''scm'', [meter_line ''ID'' ''7'' (quoted ''10''), ''noise\<newline>'',
                                meter_line ''ID'' ''7'' (quoted ''10''),
                                meter_line ''ID'' ''8'' (quoted ''20'')])]"
        "example_rtl PNone (PStr ''7'') PNone" "''scm''"]
  by (simp add: example_defs kill_def)

text \<open>
  C2. The specification says that a stream which ends before all required identifiers
  are found stops the loop, which returns what it has. With two identifiers required and
  a stream of one matching line, the code does not return: after the line, every read
  gives \<open>b''\<close>, the test \<open>output == ''\<close> compares it with a \<open>str\<close> and fails, and
  the loop spins.
\<close>

theorem stream_end_hangs:
  "get_rtl_values
     (table_lib [(meter_line ''ID'' ''1'' (quoted ''20''), meter_msg ''ID'' ''1'' (PStr ''20''))])
     (example_popen [(''scm'', [meter_line ''ID'' ''1'' (quoted ''20'')])])
     (example_rtl PNone (PStr ''1'') PNone) ''scm'' [''1'', ''2''] = None"
  by (simp add: get_rtl_values_cases example_defs)

section \<open>Claims about the meter value extractor and the orchestrator\<close>

lemmas extractor_defs = get_gas_and_electric_reading_def get_gas_and_electric_reading_internal_def
  read_if_any_def id_matches_def store_reading_def consumption_reading_def and_then_def
  meter_msg_def

text \<open>
  With neither identity set the extraction returns the empty dictionary: no process is
  started and no point is built; the empty series is still handed to the client.
\<close>

lemma no_meter_configured:
  "\<not> py_truthy (gas_meter_id self) \<Longrightarrow> \<not> py_truthy (electric_meter_id self) \<Longrightarrow>
   do_gas_electric_meter_reading lib popen self client ts tags w = Returns (write_points client [] w)"
  by (simp add: do_gas_electric_meter_reading_def get_gas_and_electric_reading_def
        get_gas_and_electric_reading_internal_def add_point_def)

text \<open>
  A consumption that is a string never makes the \<open>try\<close> raise: it stores the reading,
  or, when the string is not a number, leaves the dictionary as it is.
\<close>

lemma store_reading_string_consumption:
  "field \<noteq> ''Consumption'' \<Longrightarrow>
   store_reading lib key (meter_msg field ident (PStr cs)) d =
     Inr (case float_of_str lib cs of None \<Rightarrow> d | Some x \<Rightarrow> d(key \<mapsto> x / 100))"
  by (auto simp: store_reading_def consumption_reading_def and_then_def meter_msg_def
           split: option.splits)

text \<open>
  When exactly one of the gas and electric identities is set, only one of \<open>le\<close> and
  \<open>lg\<close> is bound, and \<open>l = le + lg\<close> cannot be evaluated: the call never returns a
  dictionary.
\<close>

lemma one_meter_never_returns:
  assumes "py_truthy gas \<noteq> py_truthy elec"
  shows "get_gas_and_electric_reading_internal lib popen self gas elec \<noteq> Returns d"
  using assms
  by (auto simp: get_gas_and_electric_reading_internal_def read_if_any_def
           split: option.splits sum.splits)

text \<open>
  C5. The specification says that the gas and electric read extracts the configured
  readings without raising any error, also when exactly one of the two identities is
  configured. With only the electric identity set and a decoder that prints a matching
  line, the code raises \<open>UnboundLocalError\<close>.
\<close>

theorem one_meter_configured_raises:
  "do_gas_electric_meter_reading
     (table_lib [(meter_line ''ID'' ''123'' (quoted ''4500''), meter_msg ''ID'' ''123'' (PStr ''4500''))])
     (example_popen [(''scm'', [meter_line ''ID'' ''123'' (quoted ''4500'')])])
     (example_rtl PNone (PStr ''123'') PNone) True ''2019-01-01T00:00:00'' 0 example_world
   = Raises UnboundLocalError"
  by (simp add: do_gas_electric_meter_reading_def extractor_defs example_defs get_rtl_values_cases)

text \<open>
  C4. The specification says that a non-numeric consumption value of one meter type
  omits that key and never aborts the extraction, so that the other meter's reading is
  still returned. With both meters configured, an electric message whose consumption is
  \<open>null\<close> and a valid gas message, the code raises \<open>TypeError\<close>: \<open>float(None)\<close>
  is neither a \<open>KeyError\<close> nor a \<open>ValueError\<close>, the two exceptions the handlers
  catch.
\<close>

theorem null_consumption_aborts_extraction:
  "get_gas_and_electric_reading
     (table_lib [(meter_line ''ID'' ''2'' ''null'', meter_msg ''ID'' ''2'' PNone),
                 (meter_line ''EndpointID'' ''1'' (quoted ''100''), meter_msg ''EndpointID'' ''1'' (PStr ''100''))])
     (example_popen [(''scm'', [meter_line ''ID'' ''2'' ''null'']),
                     (''scm+'', [meter_line ''EndpointID'' ''1'' (quoted ''100'')])])
     (example_rtl (PStr ''1'') (PStr ''2'') PNone)
   = Raises TypeError"
  by (simp add: extractor_defs example_defs get_rtl_values_cases)

text \<open>
  C7. The specification says that the water read never raises: a failed extraction is
  "no reading". With the water identity set and a message whose consumption is \<open>null\<close>,
  the code raises \<open>TypeError\<close>, which none of its three handlers catches; and when the
  decoder prints nothing and exits, the reader never returns, so the handler for
  \<open>IndexError\<close> ("No data returned") is not reached.
\<close>

theorem water_read_raises:
  "do_water_meter_reading
     (table_lib [(meter_line ''ID'' ''77'' ''null'', meter_msg ''ID'' ''77'' PNone)])
     (example_popen [(''r900bcd'', [meter_line ''ID'' ''77'' ''null''])])
     (example_rtl PNone PNone (PStr ''77'')) True ''2019-01-01T00:00:00'' 0 example_world
   = Raises TypeError
   \<and>
   do_water_meter_reading
     (table_lib [])
     (example_popen [(''r900bcd'', [])])
     (example_rtl PNone PNone (PStr ''77'')) True ''2019-01-01T00:00:00'' 0 example_world
   = Hangs"
  by (simp add: do_water_meter_reading_def get_water_reading_def water_consumption_def
        extractor_defs example_defs get_rtl_values_cases)

text \<open>
  C6, as the specification states it: the decoder prints
  \<open>{"ID":"123","Consumption":"4500"}\<close> under message type \<open>scm\<close> and the extractor
  returns the electric reading 45.0. The code reads both fields inside the \<open>Message\<close>
  object of the line, so on this line it raises \<open>KeyError\<close>.
\<close>

theorem unwrapped_line_counterexample:
  "get_gas_and_electric_reading
     (table_lib [(flat_line ''ID'' ''123'' (quoted ''4500''), flat_msg ''ID'' ''123'' (PStr ''4500'')),
                 (meter_line ''EndpointID'' ''456'' (quoted ''100''), meter_msg ''EndpointID'' ''456'' (PStr ''100''))])
     (example_popen [(''scm'', [flat_line ''ID'' ''123'' (quoted ''4500'')]),
                     (''scm+'', [meter_line ''EndpointID'' ''456'' (quoted ''100'')])])
     (example_rtl (PStr ''456'') (PStr ''123'') PNone)
   = Raises KeyError"
  by (simp add: extractor_defs example_defs flat_line_def flat_msg_def get_rtl_values_cases)

text \<open>
  C6, amended. When the first message decoded under message type \<open>scm\<close> is
  \<open>{"Message":{"ID":"123","Consumption":"4500"}}\<close>, the electric identity is
  \<open>"123"\<close> (compared as strings), and the gas meter is configured as well, its read
  giving a message of that gas meter with a string as consumption, then the extractor
  returns a dictionary whose electric reading is 45.0 (the consumption divided by 100).
  The quotient of 4500 by 100 is a double, so the idealisation of floats as reals is exact
  here.
\<close>

theorem electric_reading_extracted:
  assumes elec: "electric_meter_id self = PStr ''123''"
    and gas: "py_truthy (gas_meter_id self)"
    and scm: "decoded lib (pending (popen (command_line lib self ''scm'' [''123''])))
                = meter_msg ''ID'' ''123'' (PStr ''4500'') # more_e"
    and scmp: "decoded lib (pending (popen (command_line lib self ''scm+'' [py_str lib (gas_meter_id self)])))
                = meter_msg ''EndpointID'' (py_str lib (gas_meter_id self)) (PStr cs) # more_g"
    and num: "float_of_str lib ''4500'' = Some 4500"
  shows "\<exists>d. get_gas_and_electric_reading lib popen self = Returns d \<and> d ''electric'' = Some 45"
proof -
  have le: "get_rtl_values lib popen self ''scm'' [''123'']
      = Some (Inr [meter_msg ''ID'' ''123'' (PStr ''4500'')],
              kill ((popen (command_line lib self ''scm'' [''123'']))\<lparr>pending :=
                after_parsed lib 1 (pending (popen (command_line lib self ''scm'' [''123''])))\<rparr>))"
    using scm by (simp add: get_rtl_values_cases Let_def)
  have lg: "get_rtl_values lib popen self ''scm+'' [py_str lib (gas_meter_id self)]
      = Some (Inr [meter_msg ''EndpointID'' (py_str lib (gas_meter_id self)) (PStr cs)],
              kill ((popen (command_line lib self ''scm+'' [py_str lib (gas_meter_id self)]))\<lparr>pending :=
                after_parsed lib 1 (pending (popen (command_line lib self ''scm+'' [py_str lib (gas_meter_id self)])))\<rparr>))"
    using scmp by (simp add: get_rtl_values_cases Let_def)
  show ?thesis
    using elec gas num
    by (cases "float_of_str lib cs")
       (simp_all add: extractor_defs le lg)
qed

theorem electric_reading_extracted_witness:
  "\<exists>d. get_gas_and_electric_reading
         (table_lib [(meter_line ''ID'' ''123'' (quoted ''4500''), meter_msg ''ID'' ''123'' (PStr ''4500'')),
                     (meter_line ''EndpointID'' ''456'' (quoted ''100''), meter_msg ''EndpointID'' ''456'' (PStr ''100''))])
         (example_popen [(''scm'', [meter_line ''ID'' ''123'' (quoted ''4500'')]),
                         (''scm+'', [meter_line ''EndpointID'' ''456'' (quoted ''100'')])])
         (example_rtl (PStr ''456'') (PStr ''123'') PNone) = Returns d
       \<and> d ''electric'' = Some 45"
proof (rule electric_reading_extracted [where more_e = "[]" and more_g = "[]" and cs = "''100''"])
  show "electric_meter_id (example_rtl (PStr ''456'') (PStr ''123'') PNone) = PStr ''123''"
    by (simp add: example_rtl_def)
  show "py_truthy (gas_meter_id (example_rtl (PStr ''456'') (PStr ''123'') PNone))"
    by (simp add: example_rtl_def)
  show "float_of_str
          (table_lib [(meter_line ''ID'' ''123'' (quoted ''4500''), meter_msg ''ID'' ''123'' (PStr ''4500'')),
                      (meter_line ''EndpointID'' ''456'' (quoted ''100''), meter_msg ''EndpointID'' ''456'' (PStr ''100''))])
          ''4500'' = Some 4500"
    by (simp add: table_lib_def float_digits_def digit_val_def)
qed (simp_all add: example_defs)

section \<open>Claims about the scheduler loop\<close>

lemma tick_water: "water_ticks (tick_reads True N b @ cs) = (if water_due b N then b # water_ticks cs else water_ticks cs)"
  by (simp add: tick_reads_def)

lemma tick_ge: "gas_electric_ticks (tick_reads True N b @ cs) = b # gas_electric_ticks cs"
  by (simp add: tick_reads_def)

lemma water_ticks_main_loop:
  "water_ticks (main_loop k True N b) = filter (\<lambda>t. water_due t N) [b..<b + k]"
proof (induction k arbitrary: b)
  case 0
  show ?case by simp
next
  case (Suc k)
  have "[b..<b + Suc k] = b # [Suc b..<Suc b + k]"
    by (simp add: upt_conv_Cons)
  with Suc [of "b + 1"] show ?case
    by (simp add: tick_water)
qed

lemma gas_electric_ticks_main_loop:
  "gas_electric_ticks (main_loop k True N b) = [b..<b + k]"
proof (induction k arbitrary: b)
  case 0
  show ?case by simp
next
  case (Suc k)
  have "[b..<b + Suc k] = b # [Suc b..<Suc b + k]"
    by (simp add: upt_conv_Cons)
  with Suc [of "b + 1"] show ?case
    by (simp add: tick_ge)
qed

lemma water_due_60: "water_due t 60 \<longleftrightarrow> t mod 6 = 0"
proof -
  have "(int t * 60) mod 360 = 60 * (int t mod 6)"
    by (simp add: mult.commute mult_mod_right)
  then have "water_due t 60 \<longleftrightarrow> int t mod 6 = 0"
    by (simp add: water_due_def)
  also have "\<dots> \<longleftrightarrow> t mod 6 = 0"
    by presburger
  finally show ?thesis .
qed

text \<open>
  C3, as the specification states it: the water read fires once per six ticks whatever
  the configured interval, so on ticks 0 and 6 of the first twelve. The test of the code
  is \<open>(beat * interval) % (6 * 60) == 0\<close>, with the interval in minutes: it fires when
  the nominal time elapsed is a multiple of six hours. At the default interval of 5 minutes
  the first twelve ticks read the water meter on tick 0 only.
\<close>

theorem water_every_six_ticks_counterexample:
  "water_ticks (main_loop 12 True 5 0) = [0]"
  by (simp add: water_ticks_main_loop water_due_def upt_rec [of _ "numeral n" for n])

text \<open>
  C3, amended. For every interval \<open>N\<close>, the water read fires exactly on the ticks whose
  count times \<open>N\<close> is a multiple of 360. That is once per six ticks when \<open>N\<close> is 60,
  not for every interval: over 12 consecutive ticks at interval 60 it fires on exactly
  tick 0 and tick 6. Gas and electric are read on every tick.
\<close>

theorem water_cadence:
  "water_ticks (main_loop k True N 0) = filter (\<lambda>t. (int t * N) mod 360 = 0) [0..<k] \<and>
   water_ticks (main_loop k True 60 0) = filter (\<lambda>t. t mod 6 = 0) [0..<k] \<and>
   water_ticks (main_loop 12 True 60 0) = [0, 6] \<and>
   gas_electric_ticks (main_loop k True N 0) = [0..<k]"
proof -
  have a: "water_ticks (main_loop k True N 0) = filter (\<lambda>t. (int t * N) mod 360 = 0) [0..<k]" for k N
    using water_ticks_main_loop [of k N 0] by (simp add: water_due_def)
  have b: "water_ticks (main_loop k True 60 0) = filter (\<lambda>t. t mod 6 = 0) [0..<k]" for k
    using water_ticks_main_loop [of k 60 0] by (simp add: water_due_60)
  have c: "water_ticks (main_loop 12 True 60 0) = [0, 6]"
    by (simp add: b upt_rec [of _ "numeral n" for n])
  show ?thesis
    using a b c gas_electric_ticks_main_loop [of k N 0] by simp
qed

section \<open>Claims about the tag dictionaries\<close>

lemma set_meter_tags_cells:
  "cells (set_meter_tags w a meterid units) =
     (cells w)(a \<mapsto> meter_tags (dict_at w a) meterid units)"
  by (simp add: set_meter_tags_def setitem_def dict_at_def meter_tags_def)

lemma set_meter_tags_rest:
  "next_addr (set_meter_tags w a meterid units) = next_addr w"
  "written (set_meter_tags w a meterid units) = written w"
  by (simp_all add: set_meter_tags_def setitem_def)

text \<open>
  C10. When the water reading succeeds, \<open>do_water_meter_reading\<close> stores \<open>meterid\<close>,
  \<open>units\<close> and \<open>version\<close> in the dictionary that the caller passed: no dictionary is
  allocated, every other dictionary is as before, and the point that is written refers to
  the caller's dictionary, which is changed after the call.
  \<open>do_gas_electric_meter_reading\<close> takes a copy of the tags for each reading that is
  there, at a new address, adds the three entries to the copy and builds the point on the
  copy: the caller's dictionary is unchanged, and the copy made for one measurement holds
  nothing of the other.
\<close>

theorem water_mutates_gas_electric_copies:
  "(get_water_reading lib popen self = Returns (Some reading) \<longrightarrow>
      (\<exists>w1. do_water_meter_reading lib popen self client ts tags w = Returns w1 \<and>
            cells w1 = (cells w)(tags \<mapsto> meter_tags (dict_at w tags) (water_meter_id self) ''hcf'') \<and>
            next_addr w1 = next_addr w \<and>
            written w1 = (if client then written w @ [[reading_point ''water'' tags ts reading]]
                          else written w)))
   \<and>
   (get_gas_and_electric_reading lib popen self = Returns readings \<and> tags < next_addr w \<longrightarrow>
      (\<exists>w2 series. do_gas_electric_meter_reading lib popen self client ts tags w = Returns w2 \<and>
            cells w2 tags = cells w tags \<and>
            written w2 = (if client then written w @ [series] else written w) \<and>
            (case (readings ''gas'', readings ''electric'') of
               (Some g, Some e) \<Rightarrow>
                 series = [reading_point ''gas'' (next_addr w) ts g,
                           reading_point ''electric'' (next_addr w + 1) ts e] \<and>
                 cells w2 = (cells w)
                   (next_addr w \<mapsto> meter_tags (dict_at w tags) (gas_meter_id self) ''ccf'',
                    next_addr w + 1 \<mapsto> meter_tags (dict_at w tags) (electric_meter_id self) ''kwh'') \<and>
                 next_addr w2 = next_addr w + 2
             | (Some g, None) \<Rightarrow>
                 series = [reading_point ''gas'' (next_addr w) ts g] \<and>
                 cells w2 = (cells w)
                   (next_addr w \<mapsto> meter_tags (dict_at w tags) (gas_meter_id self) ''ccf'') \<and>
                 next_addr w2 = next_addr w + 1
             | (None, Some e) \<Rightarrow>
                 series = [reading_point ''electric'' (next_addr w) ts e] \<and>
                 cells w2 = (cells w)
                   (next_addr w \<mapsto> meter_tags (dict_at w tags) (electric_meter_id self) ''kwh'') \<and>
                 next_addr w2 = next_addr w + 1
             | (None, None) \<Rightarrow>
                 series = [] \<and> cells w2 = cells w \<and> next_addr w2 = next_addr w)))"
proof (intro conjI impI)
  assume "get_water_reading lib popen self = Returns (Some reading)"
  then show "\<exists>w1. do_water_meter_reading lib popen self client ts tags w = Returns w1 \<and>
            cells w1 = (cells w)(tags \<mapsto> meter_tags (dict_at w tags) (water_meter_id self) ''hcf'') \<and>
            next_addr w1 = next_addr w \<and>
            written w1 = (if client then written w @ [[reading_point ''water'' tags ts reading]]
                          else written w)"
    by (simp add: do_water_meter_reading_def write_points_def set_meter_tags_cells
          set_meter_tags_rest reading_point_def Let_def)
next
  assume h: "get_gas_and_electric_reading lib popen self = Returns readings \<and> tags < next_addr w"
  then have r: "get_gas_and_electric_reading lib popen self = Returns readings"
    and alloc: "tags < next_addr w" by simp_all
  from alloc have ne: "tags \<noteq> next_addr w" "tags \<noteq> Suc (next_addr w)" by simp_all
  have copy: "dict_at (w\<lparr>cells := (cells w)(next_addr w \<mapsto> m), next_addr := k\<rparr>) tags = dict_at w tags"
    for m k using ne by (simp add: dict_at_def)
  show "\<exists>w2 series. do_gas_electric_meter_reading lib popen self client ts tags w = Returns w2 \<and>
            cells w2 tags = cells w tags \<and>
            written w2 = (if client then written w @ [series] else written w) \<and>
            (case (readings ''gas'', readings ''electric'') of
               (Some g, Some e) \<Rightarrow>
                 series = [reading_point ''gas'' (next_addr w) ts g,
                           reading_point ''electric'' (next_addr w + 1) ts e] \<and>
                 cells w2 = (cells w)
                   (next_addr w \<mapsto> meter_tags (dict_at w tags) (gas_meter_id self) ''ccf'',
                    next_addr w + 1 \<mapsto> meter_tags (dict_at w tags) (electric_meter_id self) ''kwh'') \<and>
                 next_addr w2 = next_addr w + 2
             | (Some g, None) \<Rightarrow>
                 series = [reading_point ''gas'' (next_addr w) ts g] \<and>
                 cells w2 = (cells w)
                   (next_addr w \<mapsto> meter_tags (dict_at w tags) (gas_meter_id self) ''ccf'') \<and>
                 next_addr w2 = next_addr w + 1
             | (None, Some e) \<Rightarrow>
                 series = [reading_point ''electric'' (next_addr w) ts e] \<and>
                 cells w2 = (cells w)
                   (next_addr w \<mapsto> meter_tags (dict_at w tags) (electric_meter_id self) ''kwh'') \<and>
                 next_addr w2 = next_addr w + 1
             | (None, None) \<Rightarrow>
                 series = [] \<and> cells w2 = cells w \<and> next_addr w2 = next_addr w)"
    using ne
    by (cases "readings ''gas''"; cases "readings ''electric''")
       (simp_all add: do_gas_electric_meter_reading_def r add_point_def dict_copy_def
          write_points_def set_meter_tags_cells set_meter_tags_rest reading_point_def dict_at_def
          Let_def)
qed

theorem water_mutates_gas_electric_copies_witness:
  "get_water_reading household_lib household_popen household_rtl = Returns (Some (3 / 2)) \<and>
   get_gas_and_electric_reading household_lib household_popen household_rtl
     = Returns [''electric'' \<mapsto> 45, ''gas'' \<mapsto> 1] \<and>
   (0::nat) < next_addr example_world \<and>
   (\<exists>w1. do_water_meter_reading household_lib household_popen household_rtl True ''t'' 0 example_world
            = Returns w1 \<and>
          cells w1 0 = Some [''hostname'' \<mapsto> PStr ''pi'', ''meterid'' \<mapsto> PStr ''77'',
                             ''units'' \<mapsto> PStr ''hcf'', ''version'' \<mapsto> PInt 1] \<and>
          written w1 = [[reading_point ''water'' 0 ''t'' (3 / 2)]]) \<and>
   (\<exists>w2. do_gas_electric_meter_reading household_lib household_popen household_rtl True ''t'' 0
            example_world = Returns w2 \<and>
          cells w2 0 = Some [''hostname'' \<mapsto> PStr ''pi''] \<and>
          cells w2 1 = Some [''hostname'' \<mapsto> PStr ''pi'', ''meterid'' \<mapsto> PStr ''1'',
                             ''units'' \<mapsto> PStr ''ccf'', ''version'' \<mapsto> PInt 1] \<and>
          cells w2 2 = Some [''hostname'' \<mapsto> PStr ''pi'', ''meterid'' \<mapsto> PStr ''2'',
                             ''units'' \<mapsto> PStr ''kwh'', ''version'' \<mapsto> PInt 1] \<and>
          written w2 = [[reading_point ''gas'' 1 ''t'' 1, reading_point ''electric'' 2 ''t'' 45]])"
proof -
  have water: "get_water_reading household_lib household_popen household_rtl = Returns (Some (3 / 2))"
    by (simp add: household_lib_def household_popen_def household_rtl_def get_water_reading_def
          water_consumption_def consumption_reading_def and_then_def meter_msg_def example_defs
          get_rtl_values_cases float_digits_def digit_val_def)
  have readings: "get_gas_and_electric_reading household_lib household_popen household_rtl
          = Returns [''electric'' \<mapsto> 45, ''gas'' \<mapsto> 1]"
    by (simp add: household_lib_def household_popen_def household_rtl_def extractor_defs example_defs
          get_rtl_values_cases float_digits_def digit_val_def)
  have alloc: "(0::nat) < next_addr example_world"
    by (simp add: example_world_def)
  note T = water_mutates_gas_electric_copies
    [of household_lib household_popen household_rtl "3 / 2" True "''t''" 0 example_world
        "[''electric'' \<mapsto> 45, ''gas'' \<mapsto> 1]"]
  from T water have w1: "\<exists>w1. do_water_meter_reading household_lib household_popen household_rtl True
        ''t'' 0 example_world = Returns w1 \<and>
      cells w1 0 = Some [''hostname'' \<mapsto> PStr ''pi'', ''meterid'' \<mapsto> PStr ''77'',
                             ''units'' \<mapsto> PStr ''hcf'', ''version'' \<mapsto> PInt 1] \<and>
      written w1 = [[reading_point ''water'' 0 ''t'' (3 / 2)]]"
    by (auto simp: example_world_def household_rtl_def example_rtl_def meter_tags_def dict_at_def)
  from T readings alloc have w2: "\<exists>w2. do_gas_electric_meter_reading household_lib household_popen
        household_rtl True ''t'' 0 example_world = Returns w2 \<and>
          cells w2 0 = Some [''hostname'' \<mapsto> PStr ''pi''] \<and>
          cells w2 1 = Some [''hostname'' \<mapsto> PStr ''pi'', ''meterid'' \<mapsto> PStr ''1'',
                             ''units'' \<mapsto> PStr ''ccf'', ''version'' \<mapsto> PInt 1] \<and>
          cells w2 2 = Some [''hostname'' \<mapsto> PStr ''pi'', ''meterid'' \<mapsto> PStr ''2'',
                             ''units'' \<mapsto> PStr ''kwh'', ''version'' \<mapsto> PInt 1] \<and>
          written w2 = [[reading_point ''gas'' 1 ''t'' 1, reading_point ''electric'' 2 ''t'' 45]]"
    by (auto simp: example_world_def household_rtl_def example_rtl_def meter_tags_def dict_at_def
          numeral_2_eq_2)
  from water readings alloc w1 w2 show ?thesis by blast
qed

section \<open>Rounding to the nearest double\<close>



lemma rne_ge: "of_int m \<le> x \<Longrightarrow> m \<le> rne x"
proof -
  assume a: "of_int m \<le> x"
  then have "m \<le> \<lfloor>x\<rfloor>" by (simp add: le_floor_iff)
  also have "\<lfloor>x\<rfloor> \<le> rne x"
    unfolding rne_def Let_def by auto
  finally show ?thesis .
qed












section \<open>Claims about the dew point\<close>























end
